theory Spec2Isabelle
  imports Main "HOL-Library.Sublist"
begin

section \<open>Zotero collections: the data model of ZoteroCollections.hpp\<close>

text \<open>
  The header declares the collection spec (a name and a version), the collection (a spec
  that also carries its items) and the record of two callbacks a collection source has to
  provide. Strings are \<^typ>\<open>string\<close>, the C++ \<^verbatim>\<open>int\<close> of a version is
  \<^typ>\<open>int\<close> (no arithmetic is done on versions, they are only stored and compared).

  The constant \<^verbatim>\<open>kNoVersion\<close> is declared \<^verbatim>\<open>extern const int\<close>: its
  value is given in another translation unit. Every definition that reads it takes it as
  an argument, so nothing below depends on the number it stands for.
\<close>

record ZoteroCollectionSpec =
  name :: string
  version :: int

text \<open>
  \<^verbatim>\<open>ZoteroCollectionSpec(const std::string& name = "", int version = kNoVersion)
   : name(name), version(version) {}\<close>.
  \<open>ZoteroCollectionSpec_init\<close> is the member initialiser list;
  \<open>ZoteroCollectionSpec_new\<close> is a call of the constructor, where an argument left out
  at the call site is \<open>None\<close> and takes its default.
\<close>

definition ZoteroCollectionSpec_init :: "string \<Rightarrow> int \<Rightarrow> ZoteroCollectionSpec" where
  "ZoteroCollectionSpec_init name_arg version_arg = \<lparr> name = name_arg, version = version_arg \<rparr>"

definition ZoteroCollectionSpec_new ::
  "int \<Rightarrow> string option \<Rightarrow> int option \<Rightarrow> ZoteroCollectionSpec" where
  "ZoteroCollectionSpec_new kNoVersion name_arg version_arg =
     ZoteroCollectionSpec_init
       (case name_arg of None \<Rightarrow> '''' | Some n \<Rightarrow> n)
       (case version_arg of None \<Rightarrow> kNoVersion | Some v \<Rightarrow> v)"

text \<open>\<^verbatim>\<open>bool empty() const { return name.empty(); }\<close>\<close>

definition ZoteroCollectionSpec_empty :: "'a ZoteroCollectionSpec_scheme \<Rightarrow> bool" where
  "ZoteroCollectionSpec_empty s = (name s = [])"

text \<open>
  \<^verbatim>\<open>struct ZoteroCollection : ZoteroCollectionSpec { ...; core::json::Array items; }\<close>.
  The JSON library is not part of these sources: an array is the list of its elements,
  of a type \<open>'j\<close> left open, and the default-constructed array every constructor below
  leaves in \<^verbatim>\<open>items\<close> is the empty list.
\<close>

record 'j ZoteroCollection = ZoteroCollectionSpec +
  items :: "'j list"

text \<open>
  The three constructors. Each one initialises the base with two explicit arguments and
  default-constructs \<^verbatim>\<open>items\<close>; the third takes any spec by reference, a
  collection included, and reads its name and version only.
\<close>

definition ZoteroCollection_of_base :: "ZoteroCollectionSpec \<Rightarrow> 'j ZoteroCollection" where
  "ZoteroCollection_of_base b = \<lparr> name = name b, version = version b, items = [] \<rparr>"

definition ZoteroCollection_default :: "int \<Rightarrow> 'j ZoteroCollection" where
  "ZoteroCollection_default kNoVersion =
     ZoteroCollection_of_base (ZoteroCollectionSpec_init '''' kNoVersion)"

definition ZoteroCollection_of_name :: "int \<Rightarrow> string \<Rightarrow> 'j ZoteroCollection" where
  "ZoteroCollection_of_name kNoVersion colName =
     ZoteroCollection_of_base (ZoteroCollectionSpec_init colName kNoVersion)"

definition ZoteroCollection_of_spec :: "'a ZoteroCollectionSpec_scheme \<Rightarrow> 'j ZoteroCollection" where
  "ZoteroCollection_of_spec spec =
     ZoteroCollection_of_base (ZoteroCollectionSpec_init (name spec) (version spec))"

subsection \<open>Errors, handlers and the collection source\<close>

text \<open>
  \<^verbatim>\<open>core::Error\<close> is only forward-declared in the header. All that is used of it
  is that \<^verbatim>\<open>Success()\<close> is one of its values and differs from every failure; a
  failure carries its error code.
\<close>

datatype Error = Success | Failure int

text \<open>
  \<^verbatim>\<open>boost::function<void(core::Error, ZoteroCollections, std::string)>\<close>.
  A handler returns nothing and is called for its effect; \<open>'r\<close> is that effect. A
  function that takes a handler and returns \<^verbatim>\<open>void\<close> has the effect \<open>'r\<close> too:
  what it does to the caller is what its calls of the handler do.
\<close>

type_synonym ('j, 'r) ZoteroCollectionsHandler =
  "Error \<Rightarrow> 'j ZoteroCollection list \<Rightarrow> string \<Rightarrow> 'r"

text \<open>
  \<^verbatim>\<open>struct ZoteroCollectionSource\<close>: the two \<^verbatim>\<open>boost::function\<close> members,
  with their argument lists as declared.
\<close>

record ('j, 'r) ZoteroCollectionSource =
  getLibrary :: "string \<Rightarrow> ZoteroCollectionSpec \<Rightarrow> ('j, 'r) ZoteroCollectionsHandler \<Rightarrow> 'r"
  getCollections :: "string \<Rightarrow> string list \<Rightarrow> ZoteroCollectionSpec list \<Rightarrow>
                     ('j, 'r) ZoteroCollectionsHandler \<Rightarrow> 'r"

text \<open>
  One way to observe a handler: the effect of a call is the list of the calls made, each
  with its three arguments.
\<close>

type_synonym 'j handler_call = "Error \<times> 'j ZoteroCollection list \<times> string"

definition record_call :: "('j, 'j handler_call list) ZoteroCollectionsHandler" where
  "record_call error collections warning = [(error, collections, warning)]"

section \<open>The default layer of the user preferences: UserPrefsDefaultLayer.cpp\<close>

text \<open>
  Both member functions return a \<^verbatim>\<open>core::Error\<close> and may change the layer object
  they are called on: they map the layer's state \<open>'s\<close> to the error and the new state.

  \<^verbatim>\<open>readPrefs\<close> calls four things these sources do not define, taken as arguments:
  \<^verbatim>\<open>loadPrefsFromSchema\<close> (a member of the layer's base class),
  \<^verbatim>\<open>FilePath::complete\<close> (on paths of a type \<open>'p\<close> left open), the string constant
  \<^verbatim>\<open>kUserPrefsSchemaFile\<close> and the value of \<^verbatim>\<open>options().rResourcesPath()\<close>.
\<close>

definition readPrefs ::
  "('p \<Rightarrow> 's \<Rightarrow> Error \<times> 's) \<Rightarrow> ('p \<Rightarrow> string \<Rightarrow> 'p) \<Rightarrow> string \<Rightarrow> 'p \<Rightarrow> 's \<Rightarrow> Error \<times> 's" where
  "readPrefs loadPrefsFromSchema complete kUserPrefsSchemaFile rResourcesPath layer =
     loadPrefsFromSchema
       (complete (complete rResourcesPath ''schema'') kUserPrefsSchemaFile) layer"

definition validatePrefs :: "'s \<Rightarrow> Error \<times> 's" where
  "validatePrefs layer = (Success, layer)"

section \<open>The sync orchestrator\<close>

text \<open>
  The header declares the two entry points \<^verbatim>\<open>getLibrary\<close> and
  \<^verbatim>\<open>getCollections\<close> of namespace \<^verbatim>\<open>collections\<close>; their bodies are in
  \<^verbatim>\<open>ZoteroCollections.cpp\<close>, which is not among these sources. They are written
  here from section 4.2 of the specification, step by step, and carry the namespace in
  their names, since the members of \<open>ZoteroCollectionSource\<close> have the plain ones.
  The currently configured source and the library identifier it is called with are
  ambient in the program and arguments here.
\<close>

text \<open>
  Modelled from the spec: step 1 of \<^verbatim>\<open>getLibrary\<close>, whose body is missing. ``If
  useCache is false, rewrite cacheSpec.version to kNoVersion before dispatch.''
\<close>

definition getLibrary_cacheSpec :: "int \<Rightarrow> ZoteroCollectionSpec \<Rightarrow> bool \<Rightarrow> ZoteroCollectionSpec" where
  "getLibrary_cacheSpec kNoVersion cacheSpec useCache =
     (if useCache then cacheSpec else cacheSpec\<lparr>version := kNoVersion\<rparr>)"

text \<open>
  Modelled from the spec: steps 3 and 4 of \<^verbatim>\<open>getLibrary\<close>, whose body is missing:
  what is done with the source's answer. ``On success, the returned Collections are passed
  to handler(Success, collections, warning) unmodified. On failure,
  handler(error, emptyCollections, "").''
\<close>

definition getLibrary_completion ::
  "('j, 'r) ZoteroCollectionsHandler \<Rightarrow> ('j, 'r) ZoteroCollectionsHandler" where
  "getLibrary_completion handler error collections warning =
     (if error = Success then handler Success collections warning else handler error [] '''')"

text \<open>
  Modelled from the spec: \<^verbatim>\<open>getLibrary(cacheSpec, useCache, handler)\<close>, whose body
  is missing. Step 2: ``Dispatch to the currently configured Collection Source's
  fetchLibrary'', with the spec of step 1 and the completion of steps 3 and 4.
\<close>

definition collections_getLibrary ::
  "('j, 'r) ZoteroCollectionSource \<Rightarrow> string \<Rightarrow> int \<Rightarrow> ZoteroCollectionSpec \<Rightarrow> bool \<Rightarrow>
   ('j, 'r) ZoteroCollectionsHandler \<Rightarrow> 'r" where
  "collections_getLibrary source libraryId kNoVersion cacheSpec useCache handler =
     getLibrary source libraryId
       (getLibrary_cacheSpec kNoVersion cacheSpec useCache) (getLibrary_completion handler)"

text \<open>
  Modelled from the spec: the deduplication of step 2 of \<^verbatim>\<open>getCollections\<close>, whose
  body is missing. ``Deduplicate collectionNames by name (insertion order preserved)'':
  one pass over the names that keeps a name the first time it is seen.
\<close>

fun dedup_from :: "string list \<Rightarrow> string list \<Rightarrow> string list" where
  "dedup_from seen [] = []"
| "dedup_from seen (x # xs) =
     (if x \<in> set seen then dedup_from seen xs else x # dedup_from (x # seen) xs)"

definition getCollections_names :: "string list \<Rightarrow> string list" where
  "getCollections_names collections = dedup_from [] collections"

text \<open>
  Modelled from the spec: step 1 of \<^verbatim>\<open>getCollections\<close>, whose body is missing. ``If
  useCache is false, clear all incoming cacheSpecs (treat every name as uncached) before
  dispatch.''
\<close>

definition getCollections_cacheSpecs ::
  "ZoteroCollectionSpec list \<Rightarrow> bool \<Rightarrow> ZoteroCollectionSpec list" where
  "getCollections_cacheSpecs cacheSpecs useCache = (if useCache then cacheSpecs else [])"

text \<open>
  Modelled from the spec: the version a name is dispatched with, in code that is missing.
  ``A name with no corresponding entry in cacheSpecs is treated as kNoVersion''; a name
  with an entry has the version of that entry (keys are unique by name).
\<close>

definition cacheSpec_version :: "int \<Rightarrow> ZoteroCollectionSpec list \<Rightarrow> string \<Rightarrow> int" where
  "cacheSpec_version kNoVersion cacheSpecs n =
     (case find (\<lambda>s. name s = n) cacheSpecs of None \<Rightarrow> kNoVersion | Some s \<Rightarrow> version s)"

text \<open>
  Modelled from the spec: steps 4 and 5 of \<^verbatim>\<open>getCollections\<close>, whose body is
  missing. ``On success, result set must contain exactly one Collection per requested name;
  any requested name absent from the result is a contract violation and must be surfaced as
  an error for the whole call. On failure, propagate the error with an empty result set.''
  Which error reports the violation is not said: it is the argument \<open>contractViolation\<close>.
\<close>

definition one_per_name :: "string list \<Rightarrow> 'j ZoteroCollection list \<Rightarrow> bool" where
  "one_per_name names collections =
     list_all (\<lambda>n. length (filter (\<lambda>c. name c = n) collections) = 1) names"

definition getCollections_completion ::
  "Error \<Rightarrow> string list \<Rightarrow> ('j, 'r) ZoteroCollectionsHandler \<Rightarrow> ('j, 'r) ZoteroCollectionsHandler" where
  "getCollections_completion contractViolation names handler error collections warning =
     (if error \<noteq> Success then handler error [] ''''
      else if one_per_name names collections then handler Success collections warning
      else handler contractViolation [] '''')"

text \<open>
  Modelled from the spec: \<^verbatim>\<open>getCollections(collectionNames, cacheSpecs, useCache,
  handler)\<close>, whose body is missing. Step 3: ``Dispatch to the source's fetchCollections'',
  with the names of step 2, the cache specs of step 1 and the completion of steps 4 and 5.
\<close>

definition collections_getCollections ::
  "('j, 'r) ZoteroCollectionSource \<Rightarrow> string \<Rightarrow> Error \<Rightarrow> string list \<Rightarrow>
   ZoteroCollectionSpec list \<Rightarrow> bool \<Rightarrow> ('j, 'r) ZoteroCollectionsHandler \<Rightarrow> 'r" where
  "collections_getCollections source libraryId contractViolation collections cacheSpecs
       useCache handler =
     getCollections source libraryId
       (getCollections_names collections)
       (getCollections_cacheSpecs cacheSpecs useCache)
       (getCollections_completion contractViolation (getCollections_names collections) handler)"

section \<open>Properties of the data model\<close>

text \<open>
  C7. A collection spec is the null object ``no such collection'' exactly when its name
  is the empty string: \<^verbatim>\<open>empty()\<close> is true if and only if the name is empty. A
  spec with the empty name never has the name of a real collection (one whose own
  \<^verbatim>\<open>empty()\<close> is false), so a comparison of names never matches the two, and a
  search by its name among real collections finds none.
\<close>

theorem ZoteroCollectionSpec_empty_iff_no_name:
  "(ZoteroCollectionSpec_empty s \<longleftrightarrow> name s = '''') \<and>
   (ZoteroCollectionSpec_empty s \<and> \<not> ZoteroCollectionSpec_empty c \<longrightarrow> name s \<noteq> name c) \<and>
   (ZoteroCollectionSpec_empty s \<and> (\<forall>c \<in> set cs. \<not> ZoteroCollectionSpec_empty c) \<longrightarrow>
      find (\<lambda>c. name c = name s) cs = None \<and> filter (\<lambda>c. name c = name s) cs = [])"
proof -
  have differ: "name s \<noteq> name c"
    if "ZoteroCollectionSpec_empty s" "\<not> ZoteroCollectionSpec_empty c" for c :: "'c ZoteroCollectionSpec_scheme"
    using that by (auto simp: ZoteroCollectionSpec_empty_def)
  have none: "find (\<lambda>c. name c = name s) cs = None \<and> filter (\<lambda>c. name c = name s) cs = []"
    if "ZoteroCollectionSpec_empty s" "\<forall>c \<in> set cs. \<not> ZoteroCollectionSpec_empty c"
    using that by (induction cs) (auto simp: ZoteroCollectionSpec_empty_def)
  show ?thesis
    using differ none by (auto simp: ZoteroCollectionSpec_empty_def)
qed

theorem ZoteroCollectionSpec_empty_iff_no_name_witness:
  "ZoteroCollectionSpec_empty (ZoteroCollectionSpec_new (-1) None None) \<and>
   \<not> ZoteroCollectionSpec_empty (ZoteroCollection_of_name (-1) ''Refs'' :: nat ZoteroCollection) \<and>
   name (ZoteroCollectionSpec_new (-1) None None) \<noteq>
     name (ZoteroCollection_of_name (-1) ''Refs'' :: nat ZoteroCollection) \<and>
   find (\<lambda>c. name c = name (ZoteroCollectionSpec_new (-1) None None))
     [ZoteroCollection_of_name (-1) ''Refs'' :: nat ZoteroCollection] = None"
proof -
  let ?none = "ZoteroCollectionSpec_new (-1) None None"
  let ?refs = "ZoteroCollection_of_name (-1) ''Refs'' :: nat ZoteroCollection"
  have none: "ZoteroCollectionSpec_empty ?none"
    by (simp add: ZoteroCollectionSpec_empty_def ZoteroCollectionSpec_new_def
        ZoteroCollectionSpec_init_def)
  have refs: "\<not> ZoteroCollectionSpec_empty ?refs"
    by (simp add: ZoteroCollectionSpec_empty_def ZoteroCollection_of_name_def
        ZoteroCollection_of_base_def ZoteroCollectionSpec_init_def)
  have real: "\<forall>c \<in> set [?refs]. \<not> ZoteroCollectionSpec_empty c"
    using refs by simp
  show ?thesis
    using none refs real ZoteroCollectionSpec_empty_iff_no_name [of ?none ?refs "[?refs]"]
    by blast
qed

text \<open>
  C9. Constructing a collection from a spec keeps the spec's name and version exactly
  and leaves \<^verbatim>\<open>items\<close> an empty array.
\<close>

theorem ZoteroCollection_of_spec_keeps_spec:
  "name (ZoteroCollection_of_spec s) = name s \<and>
   version (ZoteroCollection_of_spec s) = version s \<and>
   items (ZoteroCollection_of_spec s) = []"
  by (simp add: ZoteroCollection_of_spec_def ZoteroCollection_of_base_def
      ZoteroCollectionSpec_init_def)

text \<open>
  C10. A spec constructed without a version (with or without a name), the
  default-constructed collection and the collection constructed from a name alone all
  have the version \<^verbatim>\<open>kNoVersion\<close>; the default-constructed spec has the empty name
  as well, so it is the null object of C7.
\<close>

theorem constructors_default_to_kNoVersion:
  "version (ZoteroCollectionSpec_new kNoVersion name_arg None) = kNoVersion \<and>
   version (ZoteroCollection_default kNoVersion) = kNoVersion \<and>
   version (ZoteroCollection_of_name kNoVersion colName) = kNoVersion \<and>
   name (ZoteroCollection_of_name kNoVersion colName) = colName \<and>
   ZoteroCollectionSpec_new kNoVersion None None = \<lparr> name = '''', version = kNoVersion \<rparr> \<and>
   ZoteroCollectionSpec_empty (ZoteroCollectionSpec_new kNoVersion None None)"
  by (simp add: ZoteroCollectionSpec_empty_def ZoteroCollectionSpec_new_def
      ZoteroCollectionSpec_init_def ZoteroCollection_of_name_def ZoteroCollection_of_base_def
      ZoteroCollection_default_def)

section \<open>Properties of the default preferences layer\<close>

text \<open>
  C8. \<^verbatim>\<open>validatePrefs\<close> returns \<^verbatim>\<open>Success\<close> in every state and leaves the
  state as it was: it does no work. \<^verbatim>\<open>readPrefs\<close> is one call of
  \<^verbatim>\<open>loadPrefsFromSchema\<close>, on the path made from the R resources path by completing it
  with \<^verbatim>\<open>"schema"\<close> and then with the name of the schema file, and returns what that
  call returns.
\<close>

theorem default_layer_validate_and_read:
  "validatePrefs layer = (Success, layer) \<and>
   readPrefs loadPrefsFromSchema complete kUserPrefsSchemaFile rResourcesPath layer =
     loadPrefsFromSchema (complete (complete rResourcesPath ''schema'') kUserPrefsSchemaFile) layer"
  by (simp add: validatePrefs_def readPrefs_def)

section \<open>Properties of the sync orchestrator\<close>

subsection \<open>The deduplication of names\<close>

text \<open>
  The pass keeps exactly the names not seen before, each once, in the order of the input;
  a name appended to the input is appended to the output if it is new and dropped if not.
\<close>

lemma set_dedup_from: "set (dedup_from seen xs) = set xs - set seen"
  by (induction xs arbitrary: seen) auto

lemma distinct_dedup_from: "distinct (dedup_from seen xs)"
  by (induction xs arbitrary: seen) (auto simp: set_dedup_from)

lemma subseq_dedup_from: "subseq (dedup_from seen xs) xs"
  by (induction xs arbitrary: seen) auto

lemma dedup_from_snoc:
  "dedup_from seen (xs @ [x]) =
     (if x \<in> set seen \<union> set xs then dedup_from seen xs else dedup_from seen xs @ [x])"
proof (induction xs arbitrary: seen)
  case Nil
  show ?case by simp
next
  case (Cons a xs)
  show ?case
  proof (cases "a \<in> set seen")
    case True
    then show ?thesis using Cons.IH [of seen] by auto
  next
    case False
    then show ?thesis using Cons.IH [of "a # seen"] by auto
  qed
qed

text \<open>A name that no cache spec carries is not found among the cache specs.\<close>

lemma find_name_None:
  "n \<notin> name ` set cacheSpecs \<Longrightarrow> find (\<lambda>s. name s = n) cacheSpecs = None"
  by (induction cacheSpecs) auto

subsection \<open>getLibrary\<close>

text \<open>
  C1. With \<^verbatim>\<open>useCache = false\<close>, \<^verbatim>\<open>getLibrary\<close> is one call of the
  configured source's \<^verbatim>\<open>getLibrary\<close>, for every cache spec and handler, and the
  spec it passes is the caller's with the version overwritten by \<^verbatim>\<open>kNoVersion\<close>:
  the name is the caller's, the version is \<^verbatim>\<open>kNoVersion\<close>, and the version the
  caller held has no influence on the call.
\<close>

theorem getLibrary_without_cache_dispatch:
  "collections_getLibrary source libraryId kNoVersion cacheSpec False handler =
     getLibrary source libraryId (cacheSpec\<lparr>version := kNoVersion\<rparr>)
       (getLibrary_completion handler)
   \<and> name (cacheSpec\<lparr>version := kNoVersion\<rparr>) = name cacheSpec
   \<and> version (cacheSpec\<lparr>version := kNoVersion\<rparr>) = kNoVersion
   \<and> collections_getLibrary source libraryId kNoVersion (cacheSpec\<lparr>version := v\<rparr>) False handler =
     collections_getLibrary source libraryId kNoVersion cacheSpec False handler"
  by (simp add: collections_getLibrary_def getLibrary_cacheSpec_def)

text \<open>
  A source that answers with the spec it was asked for shows the rewrite: the caller holds
  version 4, the source is asked for, and answers, \<open>-1\<close>.
\<close>

lemma getLibrary_without_cache_example:
  "collections_getLibrary
     \<lparr> getLibrary = (\<lambda>lib spec h. h Success [ZoteroCollection_of_spec spec] ''''),
       getCollections = (\<lambda>lib ns specs h. h Success [] '''') \<rparr>
     ''key'' (-1) \<lparr> name = ''My Library'', version = 4 \<rparr> False
     (record_call :: (nat, nat handler_call list) ZoteroCollectionsHandler) =
   [(Success, [\<lparr> name = ''My Library'', version = -1, items = [] \<rparr>], '''')]"
  by (simp add: collections_getLibrary_def getLibrary_cacheSpec_def getLibrary_completion_def
      record_call_def ZoteroCollection_of_spec_def ZoteroCollection_of_base_def
      ZoteroCollectionSpec_init_def)

text \<open>
  C4. If \<^verbatim>\<open>getLibrary\<close> fails, that is the source answers its handler with an
  error that is not \<^verbatim>\<open>Success\<close> (whatever collections and warning come with
  it), then the caller's handler is called exactly once, with that error, an empty list
  of collections and an empty warning: for every handler the effect of the whole call is
  the effect of that one call, and the recording handler records exactly that one call.
\<close>

theorem getLibrary_failure_is_bare:
  assumes "error \<noteq> Success"
    and "\<And>h. getLibrary source libraryId (getLibrary_cacheSpec kNoVersion cacheSpec useCache) h =
           h error collections warning"
  shows "collections_getLibrary source libraryId kNoVersion cacheSpec useCache handler =
           handler error [] ''''
       \<and> collections_getLibrary source libraryId kNoVersion cacheSpec useCache record_call =
           [(error, [], '''')]"
proof -
  have bare: "collections_getLibrary source libraryId kNoVersion cacheSpec useCache h =
      h error [] ''''" for h
    unfolding collections_getLibrary_def
    using assms by (simp add: getLibrary_completion_def)
  show ?thesis
    using bare [of handler] bare [of record_call] by (simp add: record_call_def)
qed

theorem getLibrary_failure_is_bare_witness:
  "Failure 503 \<noteq> Success \<and>
   collections_getLibrary
     \<lparr> getLibrary = (\<lambda>lib spec h. h (Failure 503) [ZoteroCollection_of_spec spec] ''offline''),
       getCollections = (\<lambda>lib ns specs h. h (Failure 503) [] ''offline'') \<rparr>
     ''key'' (-1) \<lparr> name = ''My Library'', version = -1 \<rparr> False
     (record_call :: (nat, nat handler_call list) ZoteroCollectionsHandler) =
   [(Failure 503, [], '''')]"
proof -
  let ?source = "\<lparr> getLibrary = (\<lambda>lib spec h. h (Failure 503) [ZoteroCollection_of_spec spec] ''offline''),
       getCollections = (\<lambda>lib ns specs h. h (Failure 503) [] ''offline'') \<rparr>
       :: (nat, nat handler_call list) ZoteroCollectionSource"
  let ?spec = "\<lparr> name = ''My Library'', version = -1 \<rparr>"
  have fails: "Failure 503 \<noteq> Success" by simp
  have answer: "getLibrary ?source ''key'' (getLibrary_cacheSpec (-1) ?spec False) h =
      h (Failure 503) [ZoteroCollection_of_spec (getLibrary_cacheSpec (-1) ?spec False)] ''offline''" for h
    by simp
  show ?thesis
    using fails getLibrary_failure_is_bare [OF fails answer, THEN conjunct2] by simp
qed

subsection \<open>getCollections\<close>

text \<open>
  C5. \<^verbatim>\<open>getCollections\<close> is one call of the source's
  \<^verbatim>\<open>getCollections\<close> with the names deduplicated: every requested name once, in
  the order of first occurrence (the list is a subsequence of the request, and a name
  appended to the request is appended if new and dropped if not). A name without an entry
  in the caller's cache specs has the version \<^verbatim>\<open>kNoVersion\<close> in what is
  dispatched; with \<^verbatim>\<open>useCache = false\<close> no cache spec is dispatched and every
  name has the version \<^verbatim>\<open>kNoVersion\<close>.
\<close>

theorem getCollections_dispatch_arguments:
  "collections_getCollections source libraryId contractViolation names cacheSpecs useCache handler =
     getCollections source libraryId (getCollections_names names)
       (getCollections_cacheSpecs cacheSpecs useCache)
       (getCollections_completion contractViolation (getCollections_names names) handler)
   \<and> distinct (getCollections_names names)
   \<and> set (getCollections_names names) = set names
   \<and> subseq (getCollections_names names) names
   \<and> getCollections_names (names @ [n]) =
       (if n \<in> set names then getCollections_names names else getCollections_names names @ [n])
   \<and> (n \<notin> name ` set cacheSpecs \<longrightarrow>
        cacheSpec_version kNoVersion (getCollections_cacheSpecs cacheSpecs useCache) n = kNoVersion)
   \<and> (\<not> useCache \<longrightarrow>
        getCollections_cacheSpecs cacheSpecs useCache = [] \<and>
        cacheSpec_version kNoVersion (getCollections_cacheSpecs cacheSpecs useCache) n = kNoVersion)"
proof -
  have names: "distinct (getCollections_names names)" "set (getCollections_names names) = set names"
      "subseq (getCollections_names names) names"
    by (simp_all add: getCollections_names_def distinct_dedup_from set_dedup_from subseq_dedup_from)
  have snoc: "getCollections_names (names @ [n]) =
       (if n \<in> set names then getCollections_names names else getCollections_names names @ [n])"
    by (simp add: getCollections_names_def dedup_from_snoc)
  have absent: "n \<notin> name ` set cacheSpecs \<longrightarrow>
      cacheSpec_version kNoVersion (getCollections_cacheSpecs cacheSpecs useCache) n = kNoVersion"
    by (simp add: cacheSpec_version_def getCollections_cacheSpecs_def find_name_None)
  have cleared: "\<not> useCache \<longrightarrow> getCollections_cacheSpecs cacheSpecs useCache = [] \<and>
      cacheSpec_version kNoVersion (getCollections_cacheSpecs cacheSpecs useCache) n = kNoVersion"
    by (simp add: cacheSpec_version_def getCollections_cacheSpecs_def)
  have dispatch: "collections_getCollections source libraryId contractViolation names cacheSpecs
        useCache handler =
     getCollections source libraryId (getCollections_names names)
       (getCollections_cacheSpecs cacheSpecs useCache)
       (getCollections_completion contractViolation (getCollections_names names) handler)"
    by (simp add: collections_getCollections_def)
  from dispatch names snoc absent cleared show ?thesis
    by (intro conjI)
qed

theorem getCollections_dispatch_arguments_witness:
  "''Drafts'' \<notin> name ` set [\<lparr> name = ''Refs'', version = 3 \<rparr>] \<and>
   getCollections_names [''Refs'', ''Drafts'', ''Refs''] = [''Refs'', ''Drafts''] \<and>
   cacheSpec_version (-1) (getCollections_cacheSpecs [\<lparr> name = ''Refs'', version = 3 \<rparr>] True) ''Refs'' = 3 \<and>
   cacheSpec_version (-1) (getCollections_cacheSpecs [\<lparr> name = ''Refs'', version = 3 \<rparr>] True) ''Drafts'' = -1 \<and>
   \<not> False \<and>
   cacheSpec_version (-1) (getCollections_cacheSpecs [\<lparr> name = ''Refs'', version = 3 \<rparr>] False) ''Refs'' = -1"
proof -
  let ?source = "\<lparr> getLibrary = (\<lambda>lib spec h. h Success [] ''''),
       getCollections = (\<lambda>lib ns specs h. h Success [] '''') \<rparr>
       :: (nat, nat handler_call list) ZoteroCollectionSource"
  let ?names = "[''Refs'', ''Drafts'', ''Refs'']"
  let ?specs = "[\<lparr> name = ''Refs'', version = 3 \<rparr>]"
  have absent: "''Drafts'' \<notin> name ` set ?specs" by simp
  have names: "getCollections_names ?names = [''Refs'', ''Drafts'']"
    by (simp add: getCollections_names_def)
  have refs: "cacheSpec_version (-1) (getCollections_cacheSpecs ?specs True) ''Refs'' = 3"
    by (simp add: cacheSpec_version_def getCollections_cacheSpecs_def)
  have drafts: "cacheSpec_version (-1) (getCollections_cacheSpecs ?specs True) ''Drafts'' = -1"
    using absent
      getCollections_dispatch_arguments
        [of ?source "''key''" "Failure 1" ?names ?specs True record_call "''Drafts''" "-1"]
    by blast
  have cleared: "cacheSpec_version (-1) (getCollections_cacheSpecs ?specs False) ''Refs'' = -1"
    using getCollections_dispatch_arguments
        [of ?source "''key''" "Failure 1" ?names ?specs False record_call "''Refs''" "-1"]
    by blast
  show ?thesis using absent names refs drafts cleared by simp
qed

end
